theory Spec2Isabelle
  imports Main
begin

section \<open>Python values, dictionaries and errors\<close>

text \<open>
  The two source files build network architectures out of library layers. The values that
  flow into the library as constructor arguments are Python scalars, strings, callables and
  tuples. A float literal is kept as it is written: \<open>PyFloat m e\<close> stands for the decimal
  literal \<open>m * 10^e\<close> (\<open>0.9\<close> is \<open>PyFloat 9 (-1)\<close>, \<open>1e-5\<close> is \<open>PyFloat 1 (-5)\<close>).
\<close>

datatype pyval =
    PyInt int
  | PyFloat int int
  | PyStr string
  | PyBool bool
  | PyCallable string
  | PyTuple "pyval list"

text \<open>A keyword dictionary, in insertion order.\<close>

type_synonym pydict = "(string \<times> pyval) list"

datatype error =
    ValueError string
  | IndexError
  | TypeError
  | AttributeError
  | LibraryError string

text \<open>\<open>d.setdefault(k, v)\<close>: the key is added only when it is absent.\<close>

definition setdefault :: "string \<Rightarrow> pyval \<Rightarrow> pydict \<Rightarrow> pydict" where
  "setdefault k v d = (if map_of d k = None then d @ [(k, v)] else d)"

text \<open>\<open>d or {}\<close> for an optional dictionary.\<close>

definition or_empty :: "pydict option \<Rightarrow> pydict" where
  "or_empty d = (case d of None \<Rightarrow> [] | Some m \<Rightarrow> m)"

text \<open>\<open>range(n)\<close> is empty for \<open>n \<le> 0\<close>.\<close>

definition range_py :: "int \<Rightarrow> nat list" where
  "range_py n = [0..<nat n]"

text \<open>\<open>xs[i]\<close> for an index \<open>i \<ge> 0\<close>: out of range raises \<open>IndexError\<close>.\<close>

definition getitem :: "'a list \<Rightarrow> nat \<Rightarrow> error + 'a" where
  "getitem xs i = (if i < length xs then Inr (xs ! i) else Inl IndexError)"

text \<open>Sequencing of computations that may raise.\<close>

definition bind_err :: "error + 'a \<Rightarrow> ('a \<Rightarrow> error + 'b) \<Rightarrow> error + 'b" where
  "bind_err m f = (case m of Inl e \<Rightarrow> Inl e | Inr a \<Rightarrow> f a)"

text \<open>The decimal form of a number, as \<open>"%d" % i\<close> and \<open>f"{len(value)}"\<close> print it.\<close>

fun str_of_nat :: "nat \<Rightarrow> string" where
  "str_of_nat n =
     (if n < 10 then [''0123456789'' ! n]
      else str_of_nat (n div 10) @ [''0123456789'' ! (n mod 10)])"

declare str_of_nat.simps [simp del]

section \<open>src/resnet\_mod.py: construction\<close>

subsection \<open>BlockV1\<close>

text \<open>
  A library layer (\<open>hk.Conv2D\<close>, \<open>hk.BatchNorm\<close>, \<open>hk.Linear\<close>) is represented by the
  keyword arguments it was constructed with; constructing a layer is taken to succeed, what
  the library does with its arguments is not part of this repository. An attribute that
  \<open>__init__\<close> assigns only on some paths (\<open>proj_conv\<close>, \<open>proj_batchnorm\<close>,
  \<open>initial_batchnorm\<close>) is an option.
\<close>

record BlockV1 =
  blk_use_projection :: bool
  blk_use_bn :: bool
  blk_proj_conv :: "pydict option"
  blk_proj_batchnorm :: "pydict option"
  blk_layers :: "(pydict \<times> pydict option) list"
  blk_name :: "string option"

definition BlockV1_init ::
  "int \<Rightarrow> pyval \<Rightarrow> bool \<Rightarrow> pydict \<Rightarrow> bool \<Rightarrow> bool \<Rightarrow> string option \<Rightarrow> BlockV1" where
  "BlockV1_init channels stride use_projection bn_config bottleneck use_bn name =
    (let bn_config = setdefault ''create_scale'' (PyBool True) bn_config;
         bn_config = setdefault ''create_offset'' (PyBool True) bn_config;
         bn_config = setdefault ''decay_rate'' (PyFloat 999 (-3)) bn_config;
         proj_conv =
           (if use_projection then
              Some [(''output_channels'', PyInt channels),
                    (''kernel_shape'', PyInt 1),
                    (''stride'', stride),
                    (''with_bias'', PyBool False),
                    (''padding'', PyStr ''SAME''),
                    (''name'', PyStr ''shortcut_conv'')]
            else None);
         proj_batchnorm =
           (if use_projection \<and> use_bn then
              Some ((''name'', PyStr ''shortcut_batchnorm'') # bn_config)
            else None);
         channel_div = (if bottleneck then 4 else 1);
         conv_0 = [(''output_channels'', PyInt (channels div channel_div)),
                   (''kernel_shape'', PyInt (if bottleneck then 1 else 3)),
                   (''stride'', (if bottleneck then PyInt 1 else stride)),
                   (''with_bias'', PyBool False),
                   (''padding'', PyStr ''SAME''),
                   (''name'', PyStr ''conv_0'')];
         bn_0 = (''name'', PyStr ''batchnorm_0'') # bn_config;
         conv_1 = [(''output_channels'', PyInt (channels div channel_div)),
                   (''kernel_shape'', PyInt 3),
                   (''stride'', (if bottleneck then stride else PyInt 1)),
                   (''with_bias'', PyBool False),
                   (''padding'', PyStr ''SAME''),
                   (''name'', PyStr ''conv_1'')];
         bn_1 = (''name'', PyStr ''batchnorm_1'') # bn_config;
         layers =
           (if use_bn then [(conv_0, Some bn_0), (conv_1, Some bn_1)]
            else [(conv_0, None), (conv_1, None)])
     in \<lparr>blk_use_projection = use_projection,
         blk_use_bn = use_bn,
         blk_proj_conv = proj_conv,
         blk_proj_batchnorm = proj_batchnorm,
         blk_layers = layers,
         blk_name = name\<rparr>)"

subsection \<open>BlockGroup\<close>

record BlockGroup =
  grp_use_bn :: bool
  grp_blocks :: "BlockV1 list"
  grp_name :: "string option"

definition BlockGroup_init ::
  "int \<Rightarrow> int \<Rightarrow> pyval \<Rightarrow> pydict \<Rightarrow> bool \<Rightarrow> bool \<Rightarrow> bool \<Rightarrow> bool \<Rightarrow> string option
     \<Rightarrow> BlockGroup" where
  "BlockGroup_init channels num_blocks stride bn_config resnet_v2 bottleneck use_projection
       use_bn name =
    (let block_cls = BlockV1_init
     in \<lparr>grp_use_bn = use_bn,
         grp_blocks =
           map (\<lambda>i. block_cls channels (if i \<noteq> 0 then PyInt 1 else stride) use_projection
                       bn_config bottleneck use_bn (Some (''block_'' @ str_of_nat i)))
               (range_py num_blocks),
         grp_name = name\<rparr>)"

subsection \<open>ResNet\<close>

definition check_length :: "nat \<Rightarrow> 'a list \<Rightarrow> string \<Rightarrow> error + unit" where
  "check_length len value name =
     (if length value \<noteq> len then
        Inl (ValueError (''`'' @ name @ ''` must be of length 4 not ''
                           @ str_of_nat (length value)))
      else Inr ())"

record ResNet =
  net_resnet_v2 :: bool
  net_resnet_v1 :: bool
  net_use_bn :: bool
  net_initial_conv :: pydict
  net_initial_batchnorm :: "pydict option"
  net_block_groups :: "BlockGroup list"
  net_logits :: "int \<times> pydict"
  net_name :: "string option"

text \<open>The loop \<open>for i in range(4)\<close> that appends one block group per index.\<close>

fun build_block_groups ::
  "int list \<Rightarrow> int list \<Rightarrow> int list \<Rightarrow> pydict \<Rightarrow> bool \<Rightarrow> bool \<Rightarrow> bool list \<Rightarrow> bool
     \<Rightarrow> nat list \<Rightarrow> BlockGroup list \<Rightarrow> error + BlockGroup list" where
  "build_block_groups channels_per_group blocks_per_group strides bn_config resnet_v2
       bottleneck use_projection use_bn [] block_groups = Inr block_groups"
| "build_block_groups channels_per_group blocks_per_group strides bn_config resnet_v2
       bottleneck use_projection use_bn (i # rest) block_groups =
     bind_err (getitem channels_per_group i) (\<lambda>channels.
     bind_err (getitem blocks_per_group i) (\<lambda>num_blocks.
     bind_err (getitem strides i) (\<lambda>stride.
     bind_err (getitem use_projection i) (\<lambda>use_proj.
       build_block_groups channels_per_group blocks_per_group strides bn_config resnet_v2
         bottleneck use_projection use_bn rest
         (block_groups @
            [BlockGroup_init channels num_blocks (PyInt stride) bn_config resnet_v2
               bottleneck use_proj use_bn (Some (''block_group_'' @ str_of_nat i))])))))"

definition ResNet_init ::
  "int list \<Rightarrow> int \<Rightarrow> bool \<Rightarrow> bool \<Rightarrow> pydict option \<Rightarrow> bool \<Rightarrow> bool \<Rightarrow> int list
     \<Rightarrow> bool list \<Rightarrow> pydict option \<Rightarrow> string option \<Rightarrow> pydict option \<Rightarrow> error + ResNet" where
  "ResNet_init blocks_per_group num_classes use_bn resnet_v1 bn_config resnet_v2 bottleneck
       channels_per_group use_projection logits_config name initial_conv_config =
    (let bn_config = or_empty bn_config;
         bn_config = setdefault ''decay_rate'' (PyFloat 9 (-1)) bn_config;
         bn_config = setdefault ''eps'' (PyFloat 1 (-5)) bn_config;
         bn_config = setdefault ''create_scale'' (PyBool True) bn_config;
         bn_config = setdefault ''create_offset'' (PyBool True) bn_config;
         logits_config = or_empty logits_config;
         logits_config = setdefault ''w_init'' (PyCallable ''jnp.zeros'') logits_config;
         logits_config = setdefault ''name'' (PyStr ''logits'') logits_config
     in
     bind_err (check_length 4 blocks_per_group ''blocks_per_group'') (\<lambda>_.
     bind_err (check_length 4 channels_per_group ''channels_per_group'') (\<lambda>_.
       (let initial_conv_config = or_empty initial_conv_config;
            initial_conv_config =
              setdefault ''output_channels'' (PyInt 64) initial_conv_config;
            initial_conv_config =
              (if resnet_v1 then
                 setdefault ''stride'' (PyInt 2)
                   (setdefault ''kernel_shape'' (PyInt 7) initial_conv_config)
               else
                 setdefault ''stride'' (PyInt 1)
                   (setdefault ''kernel_shape'' (PyInt 3) initial_conv_config));
            initial_conv_config = setdefault ''with_bias'' (PyBool False) initial_conv_config;
            initial_conv_config = setdefault ''padding'' (PyStr ''SAME'') initial_conv_config;
            initial_conv_config =
              setdefault ''name'' (PyStr ''initial_conv'') initial_conv_config;
            initial_batchnorm =
              (if \<not> resnet_v2 \<and> use_bn then
                 Some ((''name'', PyStr ''initial_batchnorm'') # bn_config)
               else None);
            strides = [1, 2, 2, 2]
        in
        bind_err (build_block_groups channels_per_group blocks_per_group strides bn_config
                    resnet_v2 bottleneck use_projection use_bn (range_py 4) [])
          (\<lambda>block_groups.
             Inr \<lparr>net_resnet_v2 = resnet_v2,
                  net_resnet_v1 = resnet_v1,
                  net_use_bn = use_bn,
                  net_initial_conv = initial_conv_config,
                  net_initial_batchnorm = initial_batchnorm,
                  net_block_groups = block_groups,
                  net_logits = (num_classes, logits_config),
                  net_name = name\<rparr>)))))"

subsection \<open>ResNet18\<close>


section \<open>Running a network\<close>

text \<open>
  The layers themselves (convolution, normalisation, dense projection, pooling, the
  element-wise functions) belong to the libraries, not to this repository. They are
  parameters of the model: a record of operations over an arbitrary array type \<open>'a\<close>.
  A layer call may raise, and it may read and update library state (parameters being
  created, the moving averages of a batch normalisation), so every operation is a
  computation over a state \<open>'s\<close> that either raises or returns a value and the next state.
  Each layer call receives the path of module names under which the library keeps the
  layer's parameters.
\<close>

type_synonym ('s, 'a) run = "'s \<Rightarrow> error + ('a \<times> 's)"

definition ret :: "'a \<Rightarrow> ('s, 'a) run" where
  "ret a = (\<lambda>s. Inr (a, s))"

definition raise :: "error \<Rightarrow> ('s, 'a) run" where
  "raise e = (\<lambda>s. Inl e)"

definition then_do :: "('s, 'a) run \<Rightarrow> ('a \<Rightarrow> ('s, 'b) run) \<Rightarrow> ('s, 'b) run" where
  "then_do m f = (\<lambda>s. case m s of Inl e \<Rightarrow> Inl e | Inr (a, s') \<Rightarrow> f a s')"

text \<open>The name a module goes by: the one given, or the library's default for its class.\<close>

definition given_name :: "string \<Rightarrow> string option \<Rightarrow> string" where
  "given_name dflt name = (case name of None \<Rightarrow> dflt | Some n \<Rightarrow> n)"

section \<open>src/resnet\_mod.py: the forward pass\<close>

record ('s, 'a) haiku =
  hk_Conv2D :: "pydict \<Rightarrow> string list \<Rightarrow> 'a \<Rightarrow> ('s, 'a) run"
  hk_BatchNorm :: "pydict \<Rightarrow> string list \<Rightarrow> 'a \<Rightarrow> bool \<Rightarrow> bool \<Rightarrow> ('s, 'a) run"
  hk_Linear :: "int \<Rightarrow> pydict \<Rightarrow> string list \<Rightarrow> 'a \<Rightarrow> ('s, 'a) run"
  hk_max_pool :: "'a \<Rightarrow> int list \<Rightarrow> int list \<Rightarrow> string \<Rightarrow> ('s, 'a) run"
  hk_relu :: "'a \<Rightarrow> ('s, 'a) run"
  hk_add :: "'a \<Rightarrow> 'a \<Rightarrow> ('s, 'a) run"
  hk_mean :: "'a \<Rightarrow> int list \<Rightarrow> ('s, 'a) run"

subsection \<open>BlockV1.\_\_call\_\_\<close>

text \<open>
  The loop \<open>for i, (conv_i, bn_i) in enumerate(self.layers)\<close>; \<open>n\<close> is
  \<open>len(self.layers)\<close>. Calling a \<open>bn_i\<close> that is \<open>None\<close> raises \<open>TypeError\<close>.
\<close>

fun BlockV1_layers ::
  "('s, 'a) haiku \<Rightarrow> string list \<Rightarrow> bool \<Rightarrow> nat \<Rightarrow> (nat \<times> pydict \<times> pydict option) list
     \<Rightarrow> 'a \<Rightarrow> bool \<Rightarrow> bool \<Rightarrow> ('s, 'a) run" where
  "BlockV1_layers B scope use_bn n [] out is_training test_local_stats = ret out"
| "BlockV1_layers B scope use_bn n ((i, conv_i, bn_i) # rest) out is_training
       test_local_stats =
     then_do (hk_Conv2D B conv_i scope out) (\<lambda>out.
     then_do (if use_bn then
                (case bn_i of
                   None \<Rightarrow> raise TypeError
                 | Some bn \<Rightarrow> hk_BatchNorm B bn scope out is_training test_local_stats)
              else ret out) (\<lambda>out.
     then_do (if int i < int n - 1 then hk_relu B out else ret out) (\<lambda>out.
       BlockV1_layers B scope use_bn n rest out is_training test_local_stats)))"

definition BlockV1_call ::
  "('s, 'a) haiku \<Rightarrow> string list \<Rightarrow> BlockV1 \<Rightarrow> 'a \<Rightarrow> bool \<Rightarrow> bool \<Rightarrow> ('s, 'a) run" where
  "BlockV1_call B scope self inputs is_training test_local_stats =
     then_do
       (if blk_use_projection self then
          (case blk_proj_conv self of
             None \<Rightarrow> raise AttributeError
           | Some proj_conv \<Rightarrow>
               then_do (hk_Conv2D B proj_conv scope inputs) (\<lambda>shortcut.
                 if blk_use_bn self then
                   (case blk_proj_batchnorm self of
                      None \<Rightarrow> raise AttributeError
                    | Some proj_batchnorm \<Rightarrow>
                        hk_BatchNorm B proj_batchnorm scope shortcut is_training
                          test_local_stats)
                 else ret shortcut))
        else ret inputs) (\<lambda>shortcut.
     then_do
       (BlockV1_layers B scope (blk_use_bn self) (length (blk_layers self))
          (enumerate 0 (blk_layers self)) inputs is_training test_local_stats) (\<lambda>out.
     then_do (hk_add B out shortcut) (\<lambda>sum. hk_relu B sum)))"

subsection \<open>BlockGroup.\_\_call\_\_\<close>

fun BlockGroup_blocks ::
  "('s, 'a) haiku \<Rightarrow> string list \<Rightarrow> BlockV1 list \<Rightarrow> 'a \<Rightarrow> bool \<Rightarrow> bool \<Rightarrow> ('s, 'a) run" where
  "BlockGroup_blocks B scope [] out is_training test_local_stats = ret out"
| "BlockGroup_blocks B scope (block # rest) out is_training test_local_stats =
     then_do (BlockV1_call B (scope @ [given_name ''block_v1'' (blk_name block)]) block out
                is_training test_local_stats) (\<lambda>out.
       BlockGroup_blocks B scope rest out is_training test_local_stats)"

definition BlockGroup_call ::
  "('s, 'a) haiku \<Rightarrow> string list \<Rightarrow> BlockGroup \<Rightarrow> 'a \<Rightarrow> bool \<Rightarrow> bool \<Rightarrow> ('s, 'a) run" where
  "BlockGroup_call B scope self inputs is_training test_local_stats =
     BlockGroup_blocks B scope (grp_blocks self) inputs is_training test_local_stats"

subsection \<open>ResNet.\_\_call\_\_\<close>

fun ResNet_groups ::
  "('s, 'a) haiku \<Rightarrow> string list \<Rightarrow> BlockGroup list \<Rightarrow> 'a \<Rightarrow> bool \<Rightarrow> bool \<Rightarrow> ('s, 'a) run" where
  "ResNet_groups B scope [] out is_training test_local_stats = ret out"
| "ResNet_groups B scope (block_group # rest) out is_training test_local_stats =
     then_do (BlockGroup_call B (scope @ [given_name ''block_group'' (grp_name block_group)])
                block_group out is_training test_local_stats) (\<lambda>out.
       ResNet_groups B scope rest out is_training test_local_stats)"

definition ResNet_call ::
  "('s, 'a) haiku \<Rightarrow> string list \<Rightarrow> ResNet \<Rightarrow> 'a \<Rightarrow> bool \<Rightarrow> bool \<Rightarrow> ('s, 'a) run" where
  "ResNet_call B scope self inputs is_training test_local_stats =
     then_do (hk_Conv2D B (net_initial_conv self) scope inputs) (\<lambda>out.
     then_do (if net_resnet_v1 self then
                hk_max_pool B out [1, 3, 3, 1] [1, 2, 2, 1] ''SAME''
              else ret out) (\<lambda>out.
     then_do (ResNet_groups B scope (net_block_groups self) out is_training
                test_local_stats) (\<lambda>out.
     then_do (hk_mean B out [1, 2]) (\<lambda>out.
       hk_Linear B (fst (net_logits self)) (snd (net_logits self)) scope out))))"

text \<open>
  A library that only records what it is asked to do: an array is the expression that
  produced it. Every operation succeeds; the state counts the batch normalisations run.
\<close>

datatype sym = Input | Op string "sym list"

definition sym_haiku :: "(nat, sym) haiku" where
  "sym_haiku =
     \<lparr>hk_Conv2D = (\<lambda>kw scope x. ret (Op ''Conv2D'' [x])),
      hk_BatchNorm = (\<lambda>kw scope x is_training test_local_stats s.
                        Inr (Op ''BatchNorm'' [x], Suc s)),
      hk_Linear = (\<lambda>n kw scope x. ret (Op ''Linear'' [x])),
      hk_max_pool = (\<lambda>x window strides padding. ret (Op ''max_pool'' [x])),
      hk_relu = (\<lambda>x. ret (Op ''relu'' [x])),
      hk_add = (\<lambda>x y. ret (Op ''add'' [x, y])),
      hk_mean = (\<lambda>x axis. ret (Op ''mean'' [x]))\<rparr>"

section \<open>src/mlp\_mixer/MLP\_mixer\_mod.py\<close>

text \<open>
  The flax layers are parameters in the same way. A layer is called with its constructor
  arguments and the path of its parameters: the name given in the source, or the name flax
  gives an unnamed submodule (its class name and its index among the unnamed submodules of
  that class in the same parent: \<open>Dense_0\<close>, \<open>Dense_1\<close>, \<open>LayerNorm_0\<close>,
  \<open>MixerBlock_0\<close>, ...). \<open>nn_shape\<close> is the attribute \<open>x.shape\<close>.
\<close>

record ('s, 'a) flax =
  nn_Dense :: "int \<Rightarrow> pydict \<Rightarrow> string list \<Rightarrow> 'a \<Rightarrow> ('s, 'a) run"
  nn_Conv :: "int \<Rightarrow> pyval \<Rightarrow> pydict \<Rightarrow> string list \<Rightarrow> 'a \<Rightarrow> ('s, 'a) run"
  nn_LayerNorm :: "string list \<Rightarrow> 'a \<Rightarrow> ('s, 'a) run"
  nn_gelu :: "'a \<Rightarrow> ('s, 'a) run"
  nn_swapaxes :: "'a \<Rightarrow> int \<Rightarrow> int \<Rightarrow> ('s, 'a) run"
  nn_add :: "'a \<Rightarrow> 'a \<Rightarrow> ('s, 'a) run"
  nn_mean :: "'a \<Rightarrow> int \<Rightarrow> ('s, 'a) run"
  nn_rearrange :: "'a \<Rightarrow> string \<Rightarrow> ('s, 'a) run"
  nn_shape :: "'a \<Rightarrow> int list"

text \<open>\<open>shape[-1]\<close>: the last entry of a tuple, \<open>IndexError\<close> on the empty tuple.\<close>

definition last_item :: "'b list \<Rightarrow> ('s, 'b) run" where
  "last_item xs = (if xs = [] then raise IndexError else ret (last xs))"

subsection \<open>MlpBlock\<close>

definition MlpBlock_call ::
  "('s, 'a) flax \<Rightarrow> string list \<Rightarrow> int \<Rightarrow> 'a \<Rightarrow> ('s, 'a) run" where
  "MlpBlock_call B scope mlp_dim x =
     then_do (nn_Dense B mlp_dim [] (scope @ [''Dense_0'']) x) (\<lambda>y.
     then_do (nn_gelu B y) (\<lambda>y.
     then_do (last_item (nn_shape B x)) (\<lambda>features.
       nn_Dense B features [] (scope @ [''Dense_1'']) y)))"

subsection \<open>MixerBlock\<close>

definition MixerBlock_call ::
  "('s, 'a) flax \<Rightarrow> string list \<Rightarrow> int \<Rightarrow> int \<Rightarrow> 'a \<Rightarrow> ('s, 'a) run" where
  "MixerBlock_call B scope tokens_mlp_dim channels_mlp_dim x =
     then_do (nn_LayerNorm B (scope @ [''LayerNorm_0'']) x) (\<lambda>y.
     then_do (nn_swapaxes B y 1 2) (\<lambda>y.
     then_do (MlpBlock_call B (scope @ [''token_mixing'']) tokens_mlp_dim y) (\<lambda>y.
     then_do (nn_swapaxes B y 1 2) (\<lambda>y.
     then_do (nn_add B x y) (\<lambda>x.
     then_do (nn_LayerNorm B (scope @ [''LayerNorm_1'']) x) (\<lambda>y.
     then_do (MlpBlock_call B (scope @ [''channel_mixing'']) channels_mlp_dim y) (\<lambda>z.
       nn_add B x z)))))))"

subsection \<open>MlpMixer\<close>

record MlpMixer =
  mixer_patches :: pyval
  mixer_num_classes :: int
  mixer_num_blocks :: int
  mixer_hidden_dim :: int
  mixer_tokens_mlp_dim :: int
  mixer_channels_mlp_dim :: int

text \<open>The loop \<open>for _ in range(self.num_blocks)\<close>, one unnamed \<open>MixerBlock\<close> per turn.\<close>

fun MlpMixer_blocks ::
  "('s, 'a) flax \<Rightarrow> string list \<Rightarrow> MlpMixer \<Rightarrow> nat list \<Rightarrow> 'a \<Rightarrow> ('s, 'a) run" where
  "MlpMixer_blocks B scope self [] x = ret x"
| "MlpMixer_blocks B scope self (i # rest) x =
     then_do (MixerBlock_call B (scope @ [''MixerBlock_'' @ str_of_nat i])
                (mixer_tokens_mlp_dim self) (mixer_channels_mlp_dim self) x) (\<lambda>x.
       MlpMixer_blocks B scope self rest x)"

definition MlpMixer_call ::
  "('s, 'a) flax \<Rightarrow> string list \<Rightarrow> MlpMixer \<Rightarrow> 'a \<Rightarrow> bool \<Rightarrow> ('s, 'a) run" where
  "MlpMixer_call B scope self inputs train =
     then_do (nn_Conv B (mixer_hidden_dim self) (mixer_patches self)
                [(''strides'', mixer_patches self)] (scope @ [''stem'']) inputs) (\<lambda>x.
     then_do (nn_rearrange B x ''n h w c -> n (h w) c'') (\<lambda>x.
     then_do (MlpMixer_blocks B scope self (range_py (mixer_num_blocks self)) x) (\<lambda>x.
     then_do (nn_LayerNorm B (scope @ [''pre_head_layer_norm'']) x) (\<lambda>x.
     then_do (nn_mean B x 1) (\<lambda>x.
       nn_Dense B (mixer_num_classes self)
         [(''kernel_init'', PyCallable ''nn.initializers.zeros'')]
         (scope @ [''head'']) x)))))"

subsection \<open>The shapes the layers produce\<close>

text \<open>
  The library run on shapes alone, following the documented shape rules of the layers: an
  array is its shape. A dense layer replaces the last axis by its number of features, a
  convolution with the default \<open>SAME\<close> padding divides each spatial axis by its stride
  (rounding up), layer normalisation and \<open>gelu\<close> keep the shape, \<open>swapaxes\<close> exchanges two
  axes, \<open>mean\<close> removes one, \<open>+\<close> broadcasts. An operation that the library rejects
  raises. The state is a log of the dense layers and additions that ran, each with the
  shapes it was given.
\<close>

datatype event =
    DenseEv "string list" "nat list" int
  | AddEv "nat list" "nat list"

definition emit :: "event \<Rightarrow> 'a \<Rightarrow> (event list, 'a) run" where
  "emit ev a = (\<lambda>log. Inr (a, log @ [ev]))"

fun the_ints :: "pyval list \<Rightarrow> int list option" where
  "the_ints [] = Some []"
| "the_ints (PyInt i # vs) = map_option ((#) i) (the_ints vs)"
| "the_ints (v # vs) = None"

fun int_tuple :: "pyval \<Rightarrow> int list option" where
  "int_tuple (PyTuple vs) = the_ints vs"
| "int_tuple v = None"

definition norm_axis :: "nat \<Rightarrow> int \<Rightarrow> nat option" where
  "norm_axis rank axis =
     (if 0 \<le> axis \<and> axis < int rank then Some (nat axis)
      else if - int rank \<le> axis \<and> axis < 0 then Some (nat (axis + int rank))
      else None)"

fun broadcast_rev :: "nat list \<Rightarrow> nat list \<Rightarrow> nat list option" where
  "broadcast_rev [] ys = Some ys"
| "broadcast_rev xs [] = Some xs"
| "broadcast_rev (x # xs) (y # ys) =
     (if x = y \<or> y = 1 then map_option ((#) x) (broadcast_rev xs ys)
      else if x = 1 then map_option ((#) y) (broadcast_rev xs ys)
      else None)"

definition shape_Dense ::
  "int \<Rightarrow> pydict \<Rightarrow> string list \<Rightarrow> nat list \<Rightarrow> (event list, nat list) run" where
  "shape_Dense features kwargs path s =
     (if s = [] \<or> features < 0 then raise (LibraryError ''Dense'')
      else emit (DenseEv path s features) (butlast s @ [nat features]))"

definition shape_Conv ::
  "int \<Rightarrow> pyval \<Rightarrow> pydict \<Rightarrow> string list \<Rightarrow> nat list \<Rightarrow> (event list, nat list) run" where
  "shape_Conv features kernel_size kwargs path s =
     (case (int_tuple kernel_size, map_option int_tuple (map_of kwargs ''strides'')) of
        (Some ks, Some (Some strides)) \<Rightarrow>
          (if length s = length ks + 2 \<and> length strides = length ks
               \<and> list_all (\<lambda>k. 0 < k) ks \<and> list_all (\<lambda>k. 0 < k) strides \<and> 0 \<le> features
           then ret (hd s # map2 (\<lambda>d k. nat ((int d + k - 1) div k)) (butlast (tl s)) strides
                       @ [nat features])
           else raise (LibraryError ''Conv''))
      | _ \<Rightarrow> raise (LibraryError ''Conv''))"

definition shape_LayerNorm :: "string list \<Rightarrow> nat list \<Rightarrow> (event list, nat list) run" where
  "shape_LayerNorm path s = (if s = [] then raise (LibraryError ''LayerNorm'') else ret s)"

definition shape_swapaxes :: "nat list \<Rightarrow> int \<Rightarrow> int \<Rightarrow> (event list, nat list) run" where
  "shape_swapaxes s axis1 axis2 =
     (case (norm_axis (length s) axis1, norm_axis (length s) axis2) of
        (Some i, Some j) \<Rightarrow> ret (s[i := s ! j, j := s ! i])
      | _ \<Rightarrow> raise (LibraryError ''swapaxes''))"

definition shape_add :: "nat list \<Rightarrow> nat list \<Rightarrow> (event list, nat list) run" where
  "shape_add s t =
     (case broadcast_rev (rev s) (rev t) of
        None \<Rightarrow> raise (LibraryError ''add'')
      | Some r \<Rightarrow> emit (AddEv s t) (rev r))"

definition shape_mean :: "nat list \<Rightarrow> int \<Rightarrow> (event list, nat list) run" where
  "shape_mean s axis =
     (case norm_axis (length s) axis of
        None \<Rightarrow> raise (LibraryError ''mean'')
      | Some i \<Rightarrow> ret (take i s @ drop (Suc i) s))"

definition shape_rearrange :: "nat list \<Rightarrow> string \<Rightarrow> (event list, nat list) run" where
  "shape_rearrange s pattern =
     (if pattern = ''n h w c -> n (h w) c'' then
        (case s of
           [n, h, w, c] \<Rightarrow> ret [n, h * w, c]
         | _ \<Rightarrow> raise (LibraryError ''rearrange''))
      else raise (LibraryError ''rearrange''))"

definition shape_flax :: "(event list, nat list) flax" where
  "shape_flax =
     \<lparr>nn_Dense = shape_Dense,
      nn_Conv = shape_Conv,
      nn_LayerNorm = shape_LayerNorm,
      nn_gelu = ret,
      nn_swapaxes = shape_swapaxes,
      nn_add = shape_add,
      nn_mean = shape_mean,
      nn_rearrange = shape_rearrange,
      nn_shape = map int\<rparr>"

section \<open>Properties of the construction\<close>

subsection \<open>Helper lemmas\<close>

lemma range_py_4: "range_py 4 = [0, 1, 2, 3]"
  by (simp add: range_py_def upt_rec)






lemma build_block_groups_four:
  assumes "length channels_per_group = 4" and "length blocks_per_group = 4"
    and "4 \<le> length use_projection"
  shows "build_block_groups channels_per_group blocks_per_group [1, 2, 2, 2] bn_config
           resnet_v2 bottleneck use_projection use_bn [0, 1, 2, 3] []
         = Inr (map (\<lambda>i. BlockGroup_init (channels_per_group ! i) (blocks_per_group ! i)
                             (PyInt ([1, 2, 2, 2] ! i)) bn_config resnet_v2 bottleneck
                             (use_projection ! i) use_bn
                             (Some (''block_group_'' @ str_of_nat i)))
                    [0, 1, 2, 3])"
  using assms by (auto simp: bind_err_def getitem_def)

lemma ResNet_init_succeeds:
  assumes "length blocks_per_group = 4" and "length channels_per_group = 4"
    and "4 \<le> length use_projection"
  shows "\<exists>net. ResNet_init blocks_per_group num_classes use_bn resnet_v1 bn_config resnet_v2
            bottleneck channels_per_group use_projection logits_config name
            initial_conv_config = Inr net
          \<and> net_resnet_v1 net = resnet_v1
          \<and> net_logits net =
              (num_classes,
               setdefault ''name'' (PyStr ''logits'')
                 (setdefault ''w_init'' (PyCallable ''jnp.zeros'') (or_empty logits_config)))
          \<and> net_block_groups net =
              map (\<lambda>i. BlockGroup_init (channels_per_group ! i) (blocks_per_group ! i)
                          (PyInt ([1, 2, 2, 2] ! i))
                          (setdefault ''create_offset'' (PyBool True)
                            (setdefault ''create_scale'' (PyBool True)
                              (setdefault ''eps'' (PyFloat 1 (-5))
                                (setdefault ''decay_rate'' (PyFloat 9 (-1))
                                  (or_empty bn_config)))))
                          resnet_v2 bottleneck (use_projection ! i) use_bn
                          (Some (''block_group_'' @ str_of_nat i)))
                  [0, 1, 2, 3]"
proof -
  have groups: "build_block_groups channels_per_group blocks_per_group [1, 2, 2, 2] bn
           resnet_v2 bottleneck use_projection use_bn (range_py 4) []
         = Inr (map (\<lambda>i. BlockGroup_init (channels_per_group ! i) (blocks_per_group ! i)
                             (PyInt ([1, 2, 2, 2] ! i)) bn resnet_v2 bottleneck
                             (use_projection ! i) use_bn
                             (Some (''block_group_'' @ str_of_nat i)))
                    [0, 1, 2, 3])" for bn
    unfolding range_py_4 using assms(2,1,3) by (rule build_block_groups_four)
  show ?thesis
    using assms(1,2)
    by (simp add: ResNet_init_def Let_def check_length_def bind_err_def groups)
qed

subsection \<open>The residual block class\<close>


subsection \<open>The convolutions of a block\<close>

text \<open>
  Claim C6. With \<open>bottleneck = True\<close> the two stacked convolutions of a \<open>BlockV1\<close> have
  \<open>channels // 4\<close> output channels and kernel shapes 1 and 3, the first has stride 1 and the
  second has the block's stride. With \<open>bottleneck = False\<close> both have \<open>channels\<close> output
  channels and kernel shape 3, the first has the block's stride and the second has stride 1.
\<close>

theorem BlockV1_init_convs:
  "map (\<lambda>(conv, bn). (map_of conv ''output_channels'', map_of conv ''kernel_shape'',
                        map_of conv ''stride''))
       (blk_layers (BlockV1_init channels stride use_projection bn_config True use_bn name))
     = [(Some (PyInt (channels div 4)), Some (PyInt 1), Some (PyInt 1)),
        (Some (PyInt (channels div 4)), Some (PyInt 3), Some stride)]
   \<and> map (\<lambda>(conv, bn). (map_of conv ''output_channels'', map_of conv ''kernel_shape'',
                        map_of conv ''stride''))
       (blk_layers (BlockV1_init channels stride use_projection bn_config False use_bn name))
     = [(Some (PyInt channels), Some (PyInt 3), Some stride),
        (Some (PyInt channels), Some (PyInt 3), Some (PyInt 1))]"
  by (simp add: BlockV1_init_def Let_def)

subsection \<open>The table of block groups\<close>




subsection \<open>The length checks\<close>



section \<open>Properties of the forward passes\<close>

subsection \<open>Sequencing\<close>

lemma then_do_ret [simp]: "then_do (ret a) f = f a"
  by (simp add: then_do_def ret_def)

lemma then_do_raise [simp]: "then_do (raise e) f = raise e"
  by (simp add: then_do_def raise_def)

lemma then_do_assoc: "then_do (then_do m f) g = then_do m (\<lambda>a. then_do (f a) g)"
  by (auto simp: then_do_def split: sum.splits)

lemma then_do_emit [simp]: "then_do (emit ev a) f log = f a (log @ [ev])"
  by (simp add: then_do_def emit_def)

lemma emit_apply: "emit ev a log = Inr (a, log @ [ev])"
  by (simp add: emit_def)

lemma str_of_nat_digits:
  "str_of_nat 0 = ''0''" "str_of_nat (Suc 0) = ''1''" "str_of_nat 2 = ''2''" "str_of_nat 3 = ''3''"
  by (simp_all add: str_of_nat.simps)

subsection \<open>The residual block\<close>

lemma ResNet_init_no_batchnorm:
  "ResNet_init blocks_per_group num_classes False resnet_v1 bn_config resnet_v2 bottleneck
     channels_per_group use_projection logits_config name initial_conv_config = Inr net
   \<Longrightarrow> net_initial_batchnorm net = None"
  by (auto simp: ResNet_init_def Let_def bind_err_def split: sum.splits)

lemma BlockV1_layers_no_bn:
  "BlockV1_layers (B\<lparr>hk_BatchNorm := bn_op\<rparr>) scope False n layers out is_training
     test_local_stats
   = BlockV1_layers B scope False n layers out is_training test_local_stats"
  by (induction layers arbitrary: out) (auto cong: if_cong)

text \<open>
  Claim C3. For a block built by \<open>BlockV1.__init__\<close>, \<open>__call__\<close> computes the shortcut
  first (the input itself without projection; with projection the 1x1 projection
  convolution of the input, followed by its batch normalisation exactly when \<open>use_bn\<close>),
  then \<open>conv_0\<close>, its batch normalisation exactly when \<open>use_bn\<close>, \<open>relu\<close>, \<open>conv_1\<close>, its
  batch normalisation exactly when \<open>use_bn\<close> and no \<open>relu\<close>, and returns
  \<open>relu(out + shortcut)\<close>. With \<open>use_bn = False\<close> the result does not depend on the batch
  normalisation operation at all, and \<open>ResNet.__init__\<close> constructs no initial batch
  normalisation.
\<close>

theorem BlockV1_call_formula:
  "BlockV1_call B scope
      (BlockV1_init channels stride use_projection bn_config bottleneck use_bn name)
      inputs is_training test_local_stats
   = (let self = BlockV1_init channels stride use_projection bn_config bottleneck use_bn name;
          conv_0 = fst (blk_layers self ! 0);
          conv_1 = fst (blk_layers self ! 1);
          batchnorm = (\<lambda>bn x. if use_bn then
                                  hk_BatchNorm B (the bn) scope x is_training test_local_stats
                                else ret x)
      in then_do (if use_projection then
                    then_do (hk_Conv2D B (the (blk_proj_conv self)) scope inputs)
                      (batchnorm (blk_proj_batchnorm self))
                  else ret inputs) (\<lambda>shortcut.
         then_do (hk_Conv2D B conv_0 scope inputs) (\<lambda>out.
         then_do (batchnorm (snd (blk_layers self ! 0)) out) (\<lambda>out.
         then_do (hk_relu B out) (\<lambda>out.
         then_do (hk_Conv2D B conv_1 scope out) (\<lambda>out.
         then_do (batchnorm (snd (blk_layers self ! 1)) out) (\<lambda>out.
         then_do (hk_add B out shortcut) (hk_relu B))))))))
   \<and> BlockV1_call (B\<lparr>hk_BatchNorm := bn_op\<rparr>) scope
        (BlockV1_init channels stride use_projection bn_config bottleneck False name)
        inputs is_training test_local_stats
     = BlockV1_call B scope
        (BlockV1_init channels stride use_projection bn_config bottleneck False name)
        inputs is_training test_local_stats
   \<and> (\<forall>net. ResNet_init blocks_per_group num_classes False resnet_v1 bn_config' resnet_v2
               bottleneck' channels_per_group use_projections logits_config name'
               initial_conv_config = Inr net
            \<longrightarrow> net_initial_batchnorm net = None)"
proof (intro conjI allI impI)
  show "BlockV1_call (B\<lparr>hk_BatchNorm := bn_op\<rparr>) scope
        (BlockV1_init channels stride use_projection bn_config bottleneck False name)
        inputs is_training test_local_stats
     = BlockV1_call B scope
        (BlockV1_init channels stride use_projection bn_config bottleneck False name)
        inputs is_training test_local_stats"
    by (simp add: BlockV1_call_def BlockV1_init_def Let_def)
qed (simp_all add: BlockV1_call_def BlockV1_init_def Let_def then_do_assoc
       ResNet_init_no_batchnorm)

theorem BlockV1_call_formula_witness:
  "(\<exists>net. ResNet_init [2, 2, 2, 2] 10 False False None False True [256, 512, 1024, 2048]
            [True, True, True, True] None None None = Inr net
          \<and> net_initial_batchnorm net = None)
   \<and> BlockV1_call sym_haiku [] (BlockV1_init 64 (PyInt 2) True [] False False None) Input
        True False 0
     = Inr (Op ''relu''
              [Op ''add'' [Op ''Conv2D'' [Op ''relu'' [Op ''Conv2D'' [Input]]],
                           Op ''Conv2D'' [Input]]], 0)
   \<and> BlockV1_call sym_haiku [] (BlockV1_init 64 (PyInt 2) False [] False True None) Input
        True False 0
     = Inr (Op ''relu''
              [Op ''add'' [Op ''BatchNorm'' [Op ''Conv2D'' [Op ''relu''
                             [Op ''BatchNorm'' [Op ''Conv2D'' [Input]]]]],
                           Input]], 2)"
proof -
  obtain net where net: "ResNet_init [2, 2, 2, 2] 10 False False None False True
      [256, 512, 1024, 2048] [True, True, True, True] None None None = Inr net"
    using ResNet_init_succeeds [of "[2, 2, 2, 2]" "[256, 512, 1024, 2048]"
        "[True, True, True, True]" 10 False False None False True None None None]
    by auto
  note inst = BlockV1_call_formula [of sym_haiku "[]" 64 "PyInt 2" _ "[]" False _ None Input
      True False _ "[2, 2, 2, 2]" 10 False None False True "[256, 512, 1024, 2048]"
      "[True, True, True, True]" None None None]
  from inst [of True False] net have a: "net_initial_batchnorm net = None"
    by blast
  from inst [of True False] have b:
    "BlockV1_call sym_haiku [] (BlockV1_init 64 (PyInt 2) True [] False False None) Input
        True False 0
     = Inr (Op ''relu''
              [Op ''add'' [Op ''Conv2D'' [Op ''relu'' [Op ''Conv2D'' [Input]]],
                           Op ''Conv2D'' [Input]]], 0)"
    by (simp add: Let_def sym_haiku_def then_do_def ret_def BlockV1_init_def)
  from inst [of False True] have c:
    "BlockV1_call sym_haiku [] (BlockV1_init 64 (PyInt 2) False [] False True None) Input
        True False 0
     = Inr (Op ''relu''
              [Op ''add'' [Op ''BatchNorm'' [Op ''Conv2D'' [Op ''relu''
                             [Op ''BatchNorm'' [Op ''Conv2D'' [Input]]]]],
                           Input]], 2)"
    by (simp add: Let_def sym_haiku_def then_do_def ret_def BlockV1_init_def)
  from net a b c show ?thesis by blast
qed

subsection \<open>The network\<close>

lemma build_block_groups_length:
  "build_block_groups cpg bpg st bn v2 bt up ubn is acc = Inr gs
     \<Longrightarrow> \<forall>i \<in> set is. i < length up"
  by (induction "is" arbitrary: acc)
     (auto simp: bind_err_def getitem_def split: sum.splits if_splits)

lemma ResNet_init_Inr_lengths:
  assumes "ResNet_init blocks_per_group num_classes use_bn resnet_v1 bn_config resnet_v2
             bottleneck channels_per_group use_projection logits_config name
             initial_conv_config = Inr net"
  shows "length blocks_per_group = 4" and "length channels_per_group = 4"
    and "4 \<le> length use_projection"
proof -
  from assms show a: "length blocks_per_group = 4" and b: "length channels_per_group = 4"
    by (auto simp: ResNet_init_def Let_def bind_err_def check_length_def
             split: sum.splits if_splits)
  from assms a b obtain gs bn where "build_block_groups channels_per_group blocks_per_group
      [1, 2, 2, 2] bn resnet_v2 bottleneck use_projection use_bn (range_py 4) [] = Inr gs"
    by (auto simp: ResNet_init_def Let_def bind_err_def check_length_def
             split: sum.splits if_splits)
  from build_block_groups_length [OF this] show "4 \<le> length use_projection"
    by (simp add: range_py_4)
qed

text \<open>
  Claim C4. A constructed \<open>ResNet\<close> has four block groups, and its \<open>__call__\<close> runs the
  initial convolution, then the 3x3 max-pool with stride 2 and \<open>SAME\<close> padding exactly
  when \<open>resnet_v1\<close> is set, then the block groups 0, 1, 2, 3 in this order, then the mean
  over axes 1 and 2, and returns the result of the logits layer with \<open>num_classes\<close> outputs.
\<close>

theorem ResNet_call_sequence:
  assumes "ResNet_init blocks_per_group num_classes use_bn resnet_v1 bn_config resnet_v2
             bottleneck channels_per_group use_projection logits_config name
             initial_conv_config = Inr net"
  shows "length (net_block_groups net) = 4
    \<and> ResNet_call B scope net inputs is_training test_local_stats =
       then_do (hk_Conv2D B (net_initial_conv net) scope inputs) (\<lambda>out.
       then_do (if resnet_v1 then hk_max_pool B out [1, 3, 3, 1] [1, 2, 2, 1] ''SAME''
                else ret out) (\<lambda>out.
       then_do (BlockGroup_call B (scope @ [''block_group_0'']) (net_block_groups net ! 0)
                  out is_training test_local_stats) (\<lambda>out.
       then_do (BlockGroup_call B (scope @ [''block_group_1'']) (net_block_groups net ! 1)
                  out is_training test_local_stats) (\<lambda>out.
       then_do (BlockGroup_call B (scope @ [''block_group_2'']) (net_block_groups net ! 2)
                  out is_training test_local_stats) (\<lambda>out.
       then_do (BlockGroup_call B (scope @ [''block_group_3'']) (net_block_groups net ! 3)
                  out is_training test_local_stats) (\<lambda>out.
       then_do (hk_mean B out [1, 2]) (\<lambda>out.
         hk_Linear B num_classes (snd (net_logits net)) scope out)))))))"
proof -
  note lens = ResNet_init_Inr_lengths [OF assms]
  from ResNet_init_succeeds [OF lens, of num_classes use_bn resnet_v1 bn_config resnet_v2
      bottleneck logits_config name initial_conv_config] assms
  have v1: "net_resnet_v1 net = resnet_v1"
    and logits: "fst (net_logits net) = num_classes"
    and groups: "net_block_groups net =
              map (\<lambda>i. BlockGroup_init (channels_per_group ! i) (blocks_per_group ! i)
                          (PyInt ([1, 2, 2, 2] ! i))
                          (setdefault ''create_offset'' (PyBool True)
                            (setdefault ''create_scale'' (PyBool True)
                              (setdefault ''eps'' (PyFloat 1 (-5))
                                (setdefault ''decay_rate'' (PyFloat 9 (-1))
                                  (or_empty bn_config)))))
                          resnet_v2 bottleneck (use_projection ! i) use_bn
                          (Some (''block_group_'' @ str_of_nat i)))
                  [0, 1, 2, 3]"
    by auto
  have names: "grp_name (BlockGroup_init c n st bn v2 bt up ubn nm) = nm"
    for c n st bn v2 bt up ubn nm
    by (simp add: BlockGroup_init_def)
  show ?thesis
    by (simp add: ResNet_call_def v1 logits groups names given_name_def str_of_nat_digits
          then_do_assoc)
qed

theorem ResNet_call_sequence_witness:
  "\<exists>net. ResNet_init [1, 0, 0, 0] 10 False True None False False [64, 128, 256, 512]
            [False, True, True, True] None None None = Inr net
     \<and> ResNet_call sym_haiku [] net Input True False 0
       = Inr (Op ''Linear'' [Op ''mean'' [Op ''relu'' [Op ''add''
                [Op ''Conv2D'' [Op ''relu'' [Op ''Conv2D''
                   [Op ''max_pool'' [Op ''Conv2D'' [Input]]]]],
                 Op ''max_pool'' [Op ''Conv2D'' [Input]]]]]], 0)"
proof -
  obtain net where net: "ResNet_init [1, 0, 0, 0] 10 False True None False False
      [64, 128, 256, 512] [False, True, True, True] None None None = Inr net"
    and groups: "net_block_groups net =
              map (\<lambda>i. BlockGroup_init ([64, 128, 256, 512] ! i) ([1, 0, 0, 0] ! i)
                          (PyInt ([1, 2, 2, 2] ! i))
                          (setdefault ''create_offset'' (PyBool True)
                            (setdefault ''create_scale'' (PyBool True)
                              (setdefault ''eps'' (PyFloat 1 (-5))
                                (setdefault ''decay_rate'' (PyFloat 9 (-1))
                                  (or_empty None)))))
                          False False ([False, True, True, True] ! i) False
                          (Some (''block_group_'' @ str_of_nat i)))
                  [0, 1, 2, 3]"
    using ResNet_init_succeeds [of "[1, 0, 0, 0]" "[64, 128, 256, 512]"
        "[False, True, True, True]" 10 False True None False False None None None]
    by auto
  from ResNet_call_sequence [OF net, of sym_haiku "[]" Input True False]
  have "ResNet_call sym_haiku [] net Input True False 0
       = Inr (Op ''Linear'' [Op ''mean'' [Op ''relu'' [Op ''add''
                [Op ''Conv2D'' [Op ''relu'' [Op ''Conv2D''
                   [Op ''max_pool'' [Op ''Conv2D'' [Input]]]]],
                 Op ''max_pool'' [Op ''Conv2D'' [Input]]]]]], 0)"
    by (simp add: groups BlockGroup_call_def BlockGroup_init_def range_py_def BlockV1_call_def
          BlockV1_init_def Let_def sym_haiku_def then_do_def ret_def)
  with net show ?thesis by blast
qed

subsection \<open>Shapes in the mixer\<close>

lemma broadcast_rev_same: "broadcast_rev xs xs = Some xs"
  by (induction xs) simp_all

lemma shape_add_same: "shape_add s s = emit (AddEv s s) s"
  by (simp add: shape_add_def broadcast_rev_same)

lemma shape_swapaxes_1_2:
  "3 \<le> length s \<Longrightarrow> shape_swapaxes s 1 2 = ret (s[1 := s ! 2, 2 := s ! 1])"
  by (simp add: shape_swapaxes_def norm_axis_def)

lemma MlpBlock_shape:
  assumes "s \<noteq> []" and "0 \<le> mlp_dim"
  shows "MlpBlock_call shape_flax scope mlp_dim s log
         = Inr (s, log @ [DenseEv (scope @ [''Dense_0'']) s mlp_dim,
                          DenseEv (scope @ [''Dense_1'']) (butlast s @ [nat mlp_dim])
                            (int (last s))])"
  using assms
  by (simp add: MlpBlock_call_def shape_flax_def shape_Dense_def last_item_def emit_def
        then_do_def ret_def last_map)

lemma MixerBlock_shape:
  assumes "3 \<le> length s" and "0 \<le> dt" and "0 \<le> dc"
  shows "MixerBlock_call shape_flax scope dt dc s log
         = Inr (s, log @
             [DenseEv (scope @ [''token_mixing'', ''Dense_0'']) (s[1 := s ! 2, 2 := s ! 1]) dt,
              DenseEv (scope @ [''token_mixing'', ''Dense_1''])
                (butlast (s[1 := s ! 2, 2 := s ! 1]) @ [nat dt])
                (int (last (s[1 := s ! 2, 2 := s ! 1]))),
              AddEv s s,
              DenseEv (scope @ [''channel_mixing'', ''Dense_0'']) s dc,
              DenseEv (scope @ [''channel_mixing'', ''Dense_1'']) (butlast s @ [nat dc])
                (int (last s)),
              AddEv s s])"
proof -
  define t where "t = s[1 := s ! 2, 2 := s ! 1]"
  from assms(1) have ne: "s \<noteq> []" "t \<noteq> []" and len: "3 \<le> length t"
    by (auto simp: t_def)
  have unswap: "t[1 := t ! 2, 2 := t ! 1] = s"
    using assms(1) by (simp add: t_def list_eq_iff_nth_eq nth_list_update)
  have tok: "then_do (MlpBlock_call shape_flax p dt t) f l
       = f t (l @ [DenseEv (p @ [''Dense_0'']) t dt,
                    DenseEv (p @ [''Dense_1'']) (butlast t @ [nat dt]) (int (last t))])"
    for p f l
    by (simp add: then_do_def MlpBlock_shape [OF ne(2) assms(2)])
  have ch: "then_do (MlpBlock_call shape_flax p dc s) f l
       = f s (l @ [DenseEv (p @ [''Dense_0'']) s dc,
                    DenseEv (p @ [''Dense_1'']) (butlast s @ [nat dc]) (int (last s))])"
    for p f l
    by (simp add: then_do_def MlpBlock_shape [OF ne(1) assms(3)])
  have sw1: "shape_swapaxes s 1 2 = ret t"
    using shape_swapaxes_1_2 [OF assms(1)] by (simp add: t_def)
  have sw2: "shape_swapaxes t 1 2 = ret s"
    unfolding shape_swapaxes_1_2 [OF len] unswap ..
  have sel: "nn_LayerNorm shape_flax = shape_LayerNorm" "nn_swapaxes shape_flax = shape_swapaxes"
    "nn_add shape_flax = shape_add"
    by (simp_all add: shape_flax_def)
  have "MixerBlock_call shape_flax scope dt dc s log
         = Inr (s, log @
             [DenseEv (scope @ [''token_mixing'', ''Dense_0'']) t dt,
              DenseEv (scope @ [''token_mixing'', ''Dense_1'']) (butlast t @ [nat dt])
                (int (last t)),
              AddEv s s,
              DenseEv (scope @ [''channel_mixing'', ''Dense_0'']) s dc,
              DenseEv (scope @ [''channel_mixing'', ''Dense_1'']) (butlast s @ [nat dc])
                (int (last s)),
              AddEv s s])"
    unfolding MixerBlock_call_def sel
    by (simp add: shape_LayerNorm_def ne sw1 sw2 tok ch shape_add_same emit_apply)
  then show ?thesis
    unfolding t_def .
qed

text \<open>A zero-dimensional input never gets through \<open>MlpBlock\<close>, whatever the layers do.\<close>

lemma MlpBlock_rank0_raises:
  "nn_shape B x = [] \<Longrightarrow> MlpBlock_call B scope mlp_dim x s \<noteq> Inr r"
  by (auto simp: MlpBlock_call_def last_item_def then_do_def raise_def
           split: sum.splits prod.splits)





subsection \<open>The mixer\<close>

lemma fold_then_do:
  "fold (\<lambda>i m. then_do m (F i)) is start
     = then_do start (\<lambda>x. fold (\<lambda>i m. then_do m (F i)) is (ret x))"
proof (induction "is" arbitrary: start)
  case Nil
  show ?case by (auto simp: then_do_def ret_def split: sum.splits)
next
  case (Cons i "is")
  show ?case
    by (simp add: Cons.IH [of "then_do start (F i)"] Cons.IH [of "F i x" for x] then_do_assoc)
qed

lemma MlpMixer_blocks_fold:
  "MlpMixer_blocks B scope self is x
     = fold (\<lambda>i m. then_do m
               (MixerBlock_call B (scope @ [''MixerBlock_'' @ str_of_nat i])
                  (mixer_tokens_mlp_dim self) (mixer_channels_mlp_dim self)))
         is (ret x)"
proof (induction "is" arbitrary: x)
  case Nil
  show ?case by simp
next
  case (Cons i "is")
  have "MlpMixer_blocks B scope self is
      = (\<lambda>x. fold (\<lambda>i m. then_do m
               (MixerBlock_call B (scope @ [''MixerBlock_'' @ str_of_nat i])
                  (mixer_tokens_mlp_dim self) (mixer_channels_mlp_dim self)))
         is (ret x))"
    by (intro ext) (simp add: Cons.IH)
  then show ?case
    by (simp add: fold_then_do [where start = "MixerBlock_call B p a b x" for p a b])
qed

text \<open>
  Claim C2. \<open>MlpMixer.__call__\<close> runs, in this order: the stem convolution with
  \<open>hidden_dim\<close> features whose kernel size and strides are both \<open>patches\<close>, the
  rearrangement \<open>'n h w c -> n (h w) c'\<close>, one \<open>MixerBlock\<close> (with \<open>tokens_mlp_dim\<close> and
  \<open>channels_mlp_dim\<close>) after the other for each index below \<open>num_blocks\<close>, a layer
  normalisation, the mean over axis 1, and the dense head with \<open>num_classes\<close> features,
  whose result it returns.
\<close>

theorem MlpMixer_call_sequence:
  "MlpMixer_call B scope self inputs train =
     then_do (nn_Conv B (mixer_hidden_dim self) (mixer_patches self)
                [(''strides'', mixer_patches self)] (scope @ [''stem'']) inputs) (\<lambda>x.
     then_do (nn_rearrange B x ''n h w c -> n (h w) c'') (\<lambda>x.
     then_do (fold (\<lambda>i m. then_do m
                      (MixerBlock_call B (scope @ [''MixerBlock_'' @ str_of_nat i])
                         (mixer_tokens_mlp_dim self) (mixer_channels_mlp_dim self)))
                [0..<nat (mixer_num_blocks self)] (ret x)) (\<lambda>x.
     then_do (nn_LayerNorm B (scope @ [''pre_head_layer_norm'']) x) (\<lambda>x.
     then_do (nn_mean B x 1) (\<lambda>x.
       nn_Dense B (mixer_num_classes self)
         [(''kernel_init'', PyCallable ''nn.initializers.zeros'')]
         (scope @ [''head'']) x)))))"
  by (simp add: MlpMixer_call_def MlpMixer_blocks_fold range_py_def)

text \<open>
  Claim C10. The \<open>train\<close> argument has no influence: for every library, state and input,
  \<open>MlpMixer.__call__\<close> with \<open>train=True\<close> and with \<open>train=False\<close> is the same computation.
\<close>

theorem MlpMixer_call_train_irrelevant:
  "MlpMixer_call B scope self inputs True = MlpMixer_call B scope self inputs False"
  by (simp add: MlpMixer_call_def)

text \<open>
  A run of the whole mixer on shapes: two 32x32 images with three channels, 16x16 patches,
  eight hidden channels and one mixer block give four tokens of eight channels and ten logits
  per image.
\<close>

lemma MlpMixer_call_shapes_example:
  "MlpMixer_call shape_flax []
     \<lparr>mixer_patches = PyTuple [PyInt 16, PyInt 16], mixer_num_classes = 10,
      mixer_num_blocks = 1, mixer_hidden_dim = 8, mixer_tokens_mlp_dim = 5,
      mixer_channels_mlp_dim = 7\<rparr>
     [2, 32, 32, 3] True []
   = Inr ([2, 10],
          [DenseEv [''MixerBlock_0'', ''token_mixing'', ''Dense_0''] [2, 8, 4] 5,
           DenseEv [''MixerBlock_0'', ''token_mixing'', ''Dense_1''] [2, 8, 5] 4,
           AddEv [2, 4, 8] [2, 4, 8],
           DenseEv [''MixerBlock_0'', ''channel_mixing'', ''Dense_0''] [2, 4, 8] 7,
           DenseEv [''MixerBlock_0'', ''channel_mixing'', ''Dense_1''] [2, 4, 7] 8,
           AddEv [2, 4, 8] [2, 4, 8],
           DenseEv [''head''] [2, 8] 10])"
proof -
  have blocks: "MixerBlock_call shape_flax [''MixerBlock_0''] 5 7 [2, 4, 8] l
      = Inr ([2, 4, 8], l @
          [DenseEv [''MixerBlock_0'', ''token_mixing'', ''Dense_0''] [2, 8, 4] 5,
           DenseEv [''MixerBlock_0'', ''token_mixing'', ''Dense_1''] [2, 8, 5] 4,
           AddEv [2, 4, 8] [2, 4, 8],
           DenseEv [''MixerBlock_0'', ''channel_mixing'', ''Dense_0''] [2, 4, 8] 7,
           DenseEv [''MixerBlock_0'', ''channel_mixing'', ''Dense_1''] [2, 4, 7] 8,
           AddEv [2, 4, 8] [2, 4, 8]])" for l
    using MixerBlock_shape [of "[2, 4, 8]" 5 7 "[''MixerBlock_0'']" l] by simp
  show ?thesis
    by (simp add: MlpMixer_call_def range_py_def str_of_nat_digits shape_flax_def
          shape_Conv_def shape_rearrange_def shape_LayerNorm_def shape_mean_def
          norm_axis_def shape_Dense_def then_do_def ret_def emit_def
          blocks [unfolded shape_flax_def])
qed

end
